theory Spec2Isabelle
  imports Main
begin

section \<open>Values and strings of the host language\<close>

text \<open>
  The service of \<^verbatim>\<open>binance.service.ts\<close> handles untyped values: a frame of the
  websocket is \<^verbatim>\<open>any\<close>, a candle of the REST endpoint is an \<^verbatim>\<open>any\<close> tuple. They are
  modelled by one datatype of JavaScript values. Numbers on these wire shapes are
  integers (timestamps, identifiers, counts); decimal quantities travel as strings.
  An object lists its own properties, each key once.
\<close>

datatype jsval =
    JUndefined
  | JNull
  | JBool bool
  | JNum int
  | JStr string
  | JArr "jsval list"
  | JObj "(string \<times> jsval) list"

text \<open>The truthiness that \<^verbatim>\<open>if (v)\<close> and \<^verbatim>\<open>v && ...\<close> test.\<close>

fun truthy :: "jsval \<Rightarrow> bool" where
  "truthy JUndefined = False"
| "truthy JNull = False"
| "truthy (JBool b) = b"
| "truthy (JNum n) = (n \<noteq> 0)"
| "truthy (JStr s) = (s \<noteq> [])"
| "truthy (JArr xs) = True"
| "truthy (JObj kvs) = True"

text \<open>
  Property access \<^verbatim>\<open>v.k\<close> for a name \<open>k\<close> that no primitive or array defines
  (the service reads \<^verbatim>\<open>e\<close> and \<^verbatim>\<open>result\<close>): a missing property reads \<^verbatim>\<open>undefined\<close>.
  The service reads a property only behind \<^verbatim>\<open>message &&\<close>, so never of \<^verbatim>\<open>null\<close> or
  \<^verbatim>\<open>undefined\<close>.
\<close>

fun getProp :: "jsval \<Rightarrow> string \<Rightarrow> jsval" where
  "getProp (JObj kvs) k = (case map_of kvs k of None \<Rightarrow> JUndefined | Some v \<Rightarrow> v)"
| "getProp v k = JUndefined"

text \<open>Indexing \<^verbatim>\<open>item[i]\<close> of an array: beyond its length it reads \<^verbatim>\<open>undefined\<close>.\<close>

definition at :: "jsval list \<Rightarrow> nat \<Rightarrow> jsval" where
  "at item i = (if i < length item then item ! i else JUndefined)"

text \<open>
  \<^verbatim>\<open>toLowerCase\<close> and \<^verbatim>\<open>toUpperCase\<close> on the ASCII letters, which is what instrument
  symbols are made of; every other character is left as it is.
\<close>

definition toLowerChar :: "char \<Rightarrow> char" where
  "toLowerChar c =
     (let n = (of_char c :: nat) in if 65 \<le> n \<and> n \<le> 90 then char_of (n + 32) else c)"

definition toUpperChar :: "char \<Rightarrow> char" where
  "toUpperChar c =
     (let n = (of_char c :: nat) in if 97 \<le> n \<and> n \<le> 122 then char_of (n - 32) else c)"

definition toLowerCase :: "string \<Rightarrow> string" where
  "toLowerCase s = map toLowerChar s"

definition toUpperCase :: "string \<Rightarrow> string" where
  "toUpperCase s = map toUpperChar s"

text \<open>
  A JavaScript \<^verbatim>\<open>Set\<close> keeps its elements in insertion order, which \<^verbatim>\<open>Array.from\<close>
  shows: it is a list without repetition, new elements at the end.
\<close>

definition Set_add :: "'a \<Rightarrow> 'a list \<Rightarrow> 'a list" where
  "Set_add x xs = (if x \<in> set xs then xs else xs @ [x])"

definition Set_delete :: "'a \<Rightarrow> 'a list \<Rightarrow> 'a list" where
  "Set_delete x xs = removeAll x xs"

definition new_Set :: "'a list \<Rightarrow> 'a list" where
  "new_Set xs = foldl (\<lambda>acc x. Set_add x acc) [] xs"

section \<open>The retry operator\<close>

text \<open>
  Both sides of the service pipe their source through the \<^verbatim>\<open>retry\<close> operator of RxJS,
  each with its own configuration. A configuration has an optional \<^verbatim>\<open>count\<close> (absent:
  no limit) and an optional \<^verbatim>\<open>delay\<close> function of the retry number (absent: the
  source is resubscribed at once). When the source fails after \<open>soFar\<close> earlier
  retries, the operator either resubscribes after some milliseconds, or lets the
  error through.
\<close>

record retry_config =
  retry_count :: "nat option"
  retry_delay :: "(nat \<Rightarrow> nat) option"

datatype retry_action = Resubscribe nat | Propagate

definition retry :: "retry_config \<Rightarrow> nat \<Rightarrow> retry_action" where
  "retry cfg soFar =
     (if (case retry_count cfg of None \<Rightarrow> True | Some c \<Rightarrow> soFar < c)
      then Resubscribe (case retry_delay cfg of None \<Rightarrow> 0 | Some d \<Rightarrow> d (Suc soFar))
      else Propagate)"

text \<open>
  The websocket pipeline of \<^verbatim>\<open>_connect\<close>:
  \<^verbatim>\<open>retry({ delay: (error, retryCount) => timer(Math.min(retryCount, 5) * 1000) })\<close>.
\<close>

definition ws_retry :: retry_config where
  "ws_retry = \<lparr>retry_count = None,
              retry_delay = Some (\<lambda>retryCount. min retryCount 5 * 1000)\<rparr>"

text \<open>The REST pipelines of \<^verbatim>\<open>getKlines\<close> and \<^verbatim>\<open>getExchangeInfo\<close>: \<^verbatim>\<open>retry(3)\<close>.\<close>

definition http_retry :: retry_config where
  "http_retry = \<lparr>retry_count = Some 3, retry_delay = None\<rparr>"

text \<open>The reconnection that the \<^verbatim>\<open>closeObserver\<close> schedules: \<^verbatim>\<open>timer(3000)\<close>.\<close>

definition reconnect_delay :: nat where
  "reconnect_delay = 3000"

section \<open>Records of the REST side\<close>

text \<open>
  A failed request is an \<^verbatim>\<open>HttpErrorResponse\<close> with its status: 0 when no response
  came (a transport failure), the HTTP status otherwise. The service has no error
  type of its own.
\<close>

datatype http_error = HttpErrorResponse (status_of: nat)

record http_request =
  url :: string
  query :: "(string \<times> jsval) list"

text \<open>
  \<^verbatim>\<open>KLineData\<close>. The fields hold whatever the tuple held at their position: the
  declared types (\<^verbatim>\<open>number\<close>, \<^verbatim>\<open>string\<close>) are not checked when the code runs.
\<close>

record KLineData =
  openTime :: jsval
  "open" :: jsval
  high :: jsval
  low :: jsval
  close :: jsval
  volume :: jsval
  closeTime :: jsval
  quoteAssetVolume :: jsval
  numberOfTrades :: jsval
  takerBuyBaseAssetVolume :: jsval
  takerBuyQuoteAssetVolume :: jsval
  ignore :: jsval

record ExchangeSymbol =
  symbol :: string
  status :: string
  baseAsset :: string
  baseAssetPrecision :: int
  quoteAsset :: string
  quotePrecision :: int
  quoteAssetPrecision :: int
  baseCommissionPrecision :: int
  quoteCommissionPrecision :: int
  orderTypes :: "string list"
  icebergAllowed :: bool
  ocoAllowed :: bool
  quoteOrderQtyMarketAllowed :: bool
  isSpotTradingAllowed :: bool
  isMarginTradingAllowed :: bool
  filters :: "jsval list"
  permissions :: "string list"
  defaultSelfTradePreventionMode :: string
  allowedSelfTradePreventionModes :: "string list"

record ExchangeInfo =
  timezone :: string
  serverTime :: int
  rateLimits :: "jsval list"
  exchangeFilters :: "jsval list"
  symbols :: "ExchangeSymbol list"

text \<open>
  The observable that one call of \<^verbatim>\<open>getKlines\<close> or \<^verbatim>\<open>getExchangeInfo\<close> returns:
  \<^verbatim>\<open>http.get(..).pipe(retry(3), catchError(rethrow), map(..), shareReplay(1))\<close>.
  It is cold: nothing is requested before the first subscriber arrives.
  \<^item> \<open>source\<close>: the request that each subscription to \<^verbatim>\<open>http.get\<close> issues;
  \<^item> \<open>observers\<close>: one entry per subscriber, \<open>None\<close> while it waits, then the value or the
    error it was given;
  \<^item> \<open>soFar\<close>: the retries that \<^verbatim>\<open>retry(3)\<close> has made in the running subscription;
  \<^item> \<open>inFlight\<close>: a request has been issued and not answered;
  \<^item> \<open>replay\<close>: the value that \<^verbatim>\<open>shareReplay(1)\<close> holds for late subscribers.
\<close>

record 'a shared =
  source :: http_request
  observers :: "(http_error + 'a) option list"
  soFar :: nat
  inFlight :: bool
  replay :: "'a option"

section \<open>The service\<close>

datatype ws_method = SUBSCRIBE | UNSUBSCRIBE

record ws_message =
  msg_method :: ws_method
  msg_params :: "string list"
  msg_id :: int

record WebSocketSubject =
  closed :: bool

text \<open>
  The state of \<^verbatim>\<open>BinanceService\<close>:
  \<^item> \<open>websocketSubject\<close>: the field \<^verbatim>\<open>_websocketSubject\<close>, \<open>None\<close> for \<^verbatim>\<open>null\<close>;
  \<^item> \<open>subscribedSymbols\<close>: the set \<^verbatim>\<open>_subscribedSymbols\<close>;
  \<^item> \<open>tradeDataStream\<close>: the subject \<^verbatim>\<open>_tradeDataStream\<close>, one entry per subscriber of
    \<^verbatim>\<open>tradeData$\<close> holding what that subscriber has received, oldest first;
  \<^item> \<open>exchangeInfoSubject\<close>: the current value of \<^verbatim>\<open>_exchangeInfoSubject\<close>, which
    \<^verbatim>\<open>exchangeInfo$\<close> shows;
  \<^item> \<open>wire\<close>: every message handed to \<^verbatim>\<open>_websocketSubject.next\<close>, oldest first;
  \<^item> \<open>timers\<close>: the delays of the pending \<^verbatim>\<open>timer(..)\<close> calls that will run \<^verbatim>\<open>_connect\<close>;
  \<^item> \<open>clockReads\<close>: how many times \<^verbatim>\<open>Date.now()\<close> has been read;
  \<^item> \<open>network\<close>: every HTTP request issued, oldest first;
  \<^item> \<open>klinesObservables\<close>, \<open>exchangeInfoObservables\<close>: the observables that the calls
    of \<^verbatim>\<open>getKlines\<close> and \<^verbatim>\<open>getExchangeInfo\<close> have returned, in the order of the calls.
  The clock is a parameter \<open>clk\<close> of the operations: \<open>clk k\<close> is what the \<open>k\<close>-th
  reading of \<^verbatim>\<open>Date.now()\<close> returns.
\<close>

record BinanceService =
  websocketSubject :: "WebSocketSubject option"
  subscribedSymbols :: "string list"
  tradeDataStream :: "jsval list list"
  exchangeInfoSubject :: "ExchangeSymbol list"
  wire :: "ws_message list"
  timers :: "nat list"
  clockReads :: nat
  network :: "http_request list"
  klinesObservables :: "KLineData list shared list"
  exchangeInfoObservables :: "ExchangeSymbol list shared list"

definition WS_BASE_URL :: string where
  "WS_BASE_URL = ''wss://stream.binance.com:9443/ws''"

definition REST_BASE_URL :: string where
  "REST_BASE_URL = ''https://api.binance.com/api/v3''"

subsection \<open>The streaming side\<close>

text \<open>The test \<^verbatim>\<open>this._websocketSubject && !this._websocketSubject.closed\<close>.\<close>

definition connected :: "BinanceService \<Rightarrow> bool" where
  "connected s = (case websocketSubject s of None \<Rightarrow> False | Some ws \<Rightarrow> \<not> closed ws)"

definition sendSubscriptionMessage ::
  "(nat \<Rightarrow> int) \<Rightarrow> ws_method \<Rightarrow> string list \<Rightarrow> BinanceService \<Rightarrow> BinanceService" where
  "sendSubscriptionMessage clk m syms s =
     (if \<not> connected s then s
      else
        let streams = map (\<lambda>x. toLowerCase x @ ''@trade'') syms;
            message = \<lparr>msg_method = m, msg_params = streams, msg_id = clk (clockReads s)\<rparr>
        in s\<lparr>wire := wire s @ [message], clockReads := Suc (clockReads s)\<rparr>)"

definition symbolsToSubscribe :: "string list \<Rightarrow> BinanceService \<Rightarrow> string list" where
  "symbolsToSubscribe syms s =
     (let newSymbols = new_Set (map toLowerCase syms)
      in filter (\<lambda>x. x \<notin> set (subscribedSymbols s)) newSymbols)"

definition symbolsToUnsubscribe :: "string list \<Rightarrow> BinanceService \<Rightarrow> string list" where
  "symbolsToUnsubscribe syms s =
     (let newSymbols = new_Set (map toLowerCase syms)
      in filter (\<lambda>x. x \<notin> set newSymbols) (subscribedSymbols s))"

definition subscribeToTradeStream ::
  "(nat \<Rightarrow> int) \<Rightarrow> string list \<Rightarrow> BinanceService \<Rightarrow> BinanceService" where
  "subscribeToTradeStream clk syms s =
     (let toSub = symbolsToSubscribe syms s;
          toUnsub = symbolsToUnsubscribe syms s;
          s1 = (if length toUnsub > 0
                then (let s' = sendSubscriptionMessage clk UNSUBSCRIBE toUnsub s
                      in s'\<lparr>subscribedSymbols :=
                             foldl (\<lambda>acc x. Set_delete x acc) (subscribedSymbols s') toUnsub\<rparr>)
                else s);
          s2 = (if length toSub > 0
                then (let s' = sendSubscriptionMessage clk SUBSCRIBE toSub s1
                      in s'\<lparr>subscribedSymbols :=
                             foldl (\<lambda>acc x. Set_add x acc) (subscribedSymbols s') toSub\<rparr>)
                else s1)
      in s2)"

text \<open>
  \<^verbatim>\<open>_connect\<close>: nothing when a subject exists and is not closed; otherwise a new
  subject is created and stored.
\<close>

definition connect :: "BinanceService \<Rightarrow> BinanceService" where
  "connect s = (if connected s then s else s\<lparr>websocketSubject := Some \<lparr>closed = False\<rparr>\<rparr>)"

text \<open>The \<^verbatim>\<open>openObserver\<close> of the subject: the socket has entered the open state.\<close>

definition openObserver_next :: "(nat \<Rightarrow> int) \<Rightarrow> BinanceService \<Rightarrow> BinanceService" where
  "openObserver_next clk s =
     (if length (subscribedSymbols s) > 0
      then sendSubscriptionMessage clk SUBSCRIBE (subscribedSymbols s) s
      else s)"

text \<open>The \<^verbatim>\<open>closeObserver\<close>: the socket has closed; a reconnection is scheduled.\<close>

definition closeObserver_next :: "BinanceService \<Rightarrow> BinanceService" where
  "closeObserver_next s = s\<lparr>websocketSubject := None, timers := timers s @ [reconnect_delay]\<rparr>"

text \<open>The oldest pending timer fires and runs \<^verbatim>\<open>_connect\<close>.\<close>

definition timer_fires :: "BinanceService \<Rightarrow> BinanceService" where
  "timer_fires s = (case timers s of [] \<Rightarrow> s | t # ts \<Rightarrow> connect (s\<lparr>timers := ts\<rparr>))"

text \<open>
  A listener subscribes to \<^verbatim>\<open>tradeData$\<close>; \<^verbatim>\<open>_tradeDataStream.next\<close> hands a value to
  every listener subscribed at that moment.
\<close>

definition tradeData_subscribe :: "BinanceService \<Rightarrow> BinanceService" where
  "tradeData_subscribe s = s\<lparr>tradeDataStream := tradeDataStream s @ [[]]\<rparr>"

definition tradeDataStream_next :: "jsval \<Rightarrow> BinanceService \<Rightarrow> BinanceService" where
  "tradeDataStream_next v s =
     s\<lparr>tradeDataStream := map (\<lambda>received. received @ [v]) (tradeDataStream s)\<rparr>"

text \<open>
  The \<^verbatim>\<open>next\<close> handler of the subscription made in \<^verbatim>\<open>_connect\<close>, run on every inbound
  frame. Its second branch only writes to the console.
\<close>

definition message_next :: "jsval \<Rightarrow> BinanceService \<Rightarrow> BinanceService" where
  "message_next message s =
     (if truthy message \<and> getProp message ''e'' = JStr ''trade''
      then tradeDataStream_next message s
      else if truthy message \<and> getProp message ''result'' \<noteq> JUndefined
      then s
      else s)"

subsection \<open>The REST side\<close>

definition new_shared :: "http_request \<Rightarrow> 'a shared" where
  "new_shared r = \<lparr>source = r, observers = [], soFar = 0, inFlight = False, replay = None\<rparr>"

text \<open>
  A subscriber arrives at the observable. With a value to replay it is served at once;
  otherwise it waits, and when nothing is in flight the source is subscribed, which
  issues the request. The second component lists the requests issued.
\<close>

definition shared_subscribe :: "'a shared \<Rightarrow> 'a shared \<times> http_request list" where
  "shared_subscribe ob =
     (case replay ob of
        Some v \<Rightarrow> (ob\<lparr>observers := observers ob @ [Some (Inr v)]\<rparr>, [])
      | None \<Rightarrow>
          if inFlight ob then (ob\<lparr>observers := observers ob @ [None]\<rparr>, [])
          else (ob\<lparr>observers := observers ob @ [None], soFar := 0, inFlight := True\<rparr>,
                [source ob]))"

text \<open>Every waiting subscriber is given the value or the error.\<close>

definition notify :: "http_error + 'a \<Rightarrow> (http_error + 'a) option list \<Rightarrow> (http_error + 'a) option list" where
  "notify n obs = map (\<lambda>ob. case ob of None \<Rightarrow> Some n | Some x \<Rightarrow> Some x) obs"

text \<open>
  The request in flight is answered, with an error or with a body. A body goes through
  \<^verbatim>\<open>map\<close> (the function \<open>f\<close>) and is given to the subscribers and kept for replay. An
  error is put to \<^verbatim>\<open>retry(3)\<close>, which either issues the request again or lets the error
  through; \<^verbatim>\<open>catchError\<close> logs it and throws it again as it is, and the subscribers are
  given it. The result lists the requests issued and the value that left \<^verbatim>\<open>map\<close>, if any.
\<close>

definition shared_response ::
  "('r \<Rightarrow> 'a) \<Rightarrow> http_error + 'r \<Rightarrow> 'a shared \<Rightarrow> 'a shared \<times> http_request list \<times> 'a option" where
  "shared_response f r ob =
     (if \<not> inFlight ob then (ob, [], None)
      else
        case r of
          Inr body \<Rightarrow>
            (let v = f body
             in (ob\<lparr>observers := notify (Inr v) (observers ob), inFlight := False,
                     replay := Some v\<rparr>, [], Some v))
        | Inl e \<Rightarrow>
            (case retry http_retry (soFar ob) of
               Resubscribe d \<Rightarrow> (ob\<lparr>soFar := Suc (soFar ob)\<rparr>, [source ob], None)
             | Propagate \<Rightarrow>
                 (ob\<lparr>observers := notify (Inl e) (observers ob), inFlight := False\<rparr>, [], None)))"

text \<open>An optional \<^verbatim>\<open>number\<close> argument as a value: absent is \<^verbatim>\<open>undefined\<close>.\<close>

definition optnum :: "int option \<Rightarrow> jsval" where
  "optnum n = (case n of None \<Rightarrow> JUndefined | Some k \<Rightarrow> JNum k)"

text \<open>The arrow function that \<^verbatim>\<open>getKlines\<close> maps over the response.\<close>

definition klineOfItem :: "jsval list \<Rightarrow> KLineData" where
  "klineOfItem item =
     \<lparr>openTime = at item 0,
      open = at item 1,
      high = at item 2,
      low = at item 3,
      close = at item 4,
      volume = at item 5,
      closeTime = at item 6,
      quoteAssetVolume = at item 7,
      numberOfTrades = at item 8,
      takerBuyBaseAssetVolume = at item 9,
      takerBuyQuoteAssetVolume = at item 10,
      ignore = at item 11\<rparr>"

text \<open>
  \<^verbatim>\<open>getKlines\<close> builds the query and returns a new observable (here: its index among
  the observables of the service). An absent \<open>limit\<close> takes the default 500.
\<close>

definition getKlines ::
  "string \<Rightarrow> string \<Rightarrow> int option \<Rightarrow> int option \<Rightarrow> int option \<Rightarrow> BinanceService
     \<Rightarrow> nat \<times> BinanceService" where
  "getKlines symb interval limit startTime endTime s =
     (let limit' = (case limit of None \<Rightarrow> 500 | Some l \<Rightarrow> l);
          params = [(''symbol'', JStr (toUpperCase symb)),
                    (''interval'', JStr interval),
                    (''limit'', JNum limit')];
          params = (if truthy (optnum startTime)
                    then params @ [(''startTime'', optnum startTime)] else params);
          params = (if truthy (optnum endTime)
                    then params @ [(''endTime'', optnum endTime)] else params);
          ob = new_shared \<lparr>url = REST_BASE_URL @ ''/klines'', query = params\<rparr>
      in (length (klinesObservables s), s\<lparr>klinesObservables := klinesObservables s @ [ob]\<rparr>))"

definition klines_subscribe :: "nat \<Rightarrow> BinanceService \<Rightarrow> BinanceService" where
  "klines_subscribe i s =
     (if i < length (klinesObservables s)
      then (let (ob, reqs) = shared_subscribe (klinesObservables s ! i)
            in s\<lparr>klinesObservables := (klinesObservables s)[i := ob],
                 network := network s @ reqs\<rparr>)
      else s)"

definition klines_response ::
  "nat \<Rightarrow> http_error + jsval list list \<Rightarrow> BinanceService \<Rightarrow> BinanceService" where
  "klines_response i r s =
     (if i < length (klinesObservables s)
      then (let (ob, reqs, emitted) = shared_response (map klineOfItem) r (klinesObservables s ! i)
            in s\<lparr>klinesObservables := (klinesObservables s)[i := ob],
                 network := network s @ reqs\<rparr>)
      else s)"

text \<open>
  \<^verbatim>\<open>getExchangeInfo\<close>: the same pipeline, with the filter on the status as its \<^verbatim>\<open>map\<close> and
  a \<^verbatim>\<open>tap\<close> that stores every value leaving the \<^verbatim>\<open>map\<close> in \<^verbatim>\<open>_exchangeInfoSubject\<close>.
\<close>

definition getExchangeInfo :: "BinanceService \<Rightarrow> nat \<times> BinanceService" where
  "getExchangeInfo s =
     (let ob = new_shared \<lparr>url = REST_BASE_URL @ ''/exchangeInfo'', query = []\<rparr>
      in (length (exchangeInfoObservables s),
          s\<lparr>exchangeInfoObservables := exchangeInfoObservables s @ [ob]\<rparr>))"

definition exchangeInfo_subscribe :: "nat \<Rightarrow> BinanceService \<Rightarrow> BinanceService" where
  "exchangeInfo_subscribe i s =
     (if i < length (exchangeInfoObservables s)
      then (let (ob, reqs) = shared_subscribe (exchangeInfoObservables s ! i)
            in s\<lparr>exchangeInfoObservables := (exchangeInfoObservables s)[i := ob],
                 network := network s @ reqs\<rparr>)
      else s)"

definition exchangeInfo_response ::
  "nat \<Rightarrow> http_error + ExchangeInfo \<Rightarrow> BinanceService \<Rightarrow> BinanceService" where
  "exchangeInfo_response i r s =
     (if i < length (exchangeInfoObservables s)
      then (let (ob, reqs, emitted) =
                  shared_response (\<lambda>info. filter (\<lambda>x. status x = ''TRADING'') (symbols info)) r
                    (exchangeInfoObservables s ! i)
            in s\<lparr>exchangeInfoObservables := (exchangeInfoObservables s)[i := ob],
                 network := network s @ reqs,
                 exchangeInfoSubject :=
                   (case emitted of None \<Rightarrow> exchangeInfoSubject s | Some v \<Rightarrow> v)\<rparr>)
      else s)"

text \<open>
  The constructor: \<^verbatim>\<open>this.getExchangeInfo().subscribe(); this._connect();\<close> on the
  initial values of the fields.
\<close>

definition constructor :: BinanceService where
  "constructor =
     (let s0 = \<lparr>websocketSubject = None, subscribedSymbols = [], tradeDataStream = [],
                exchangeInfoSubject = [], wire = [], timers = [], clockReads = 0,
                network = [], klinesObservables = [], exchangeInfoObservables = []\<rparr>;
          (i, s1) = getExchangeInfo s0;
          s2 = exchangeInfo_subscribe i s1
      in connect s2)"

section \<open>Shapes of inbound frames\<close>

text \<open>
  The trade-event shape, as the interface \<^verbatim>\<open>TradeData\<close> and the specification word it:
  an object whose event-type field \<^verbatim>\<open>e\<close> is the string \<^verbatim>\<open>trade\<close>. The handler's own
  test is the condition of \<open>message_next\<close>; the two are compared below.
\<close>

definition tradeShape :: "jsval \<Rightarrow> bool" where
  "tradeShape message =
     (case message of JObj kvs \<Rightarrow> map_of kvs ''e'' = Some (JStr ''trade'') | _ \<Rightarrow> False)"

section \<open>Basic facts\<close>

lemma toLowerChar_idem: "toLowerChar (toLowerChar c) = toLowerChar c"
  unfolding toLowerChar_def Let_def by auto

lemma toLowerCase_idem: "toLowerCase (toLowerCase x) = toLowerCase x"
  by (simp add: toLowerCase_def toLowerChar_idem)

lemma set_foldl_Set_add: "set (foldl (\<lambda>acc x. Set_add x acc) acc xs) = set acc \<union> set xs"
  by (induction xs arbitrary: acc) (auto simp: Set_add_def)

lemma set_foldl_Set_delete: "set (foldl (\<lambda>acc x. Set_delete x acc) acc xs) = set acc - set xs"
  by (induction xs arbitrary: acc) (auto simp: Set_delete_def)

lemma set_new_Set: "set (new_Set xs) = set xs"
  by (simp add: new_Set_def set_foldl_Set_add)

lemma distinct_foldl_Set_add:
  "distinct acc \<Longrightarrow> distinct (foldl (\<lambda>acc x. Set_add x acc) acc xs)"
  by (induction xs arbitrary: acc) (auto simp: Set_add_def)

lemma distinct_foldl_Set_delete:
  "distinct acc \<Longrightarrow> distinct (foldl (\<lambda>acc x. Set_delete x acc) acc xs)"
  by (induction xs arbitrary: acc) (auto simp: Set_delete_def distinct_removeAll)

lemma set_symbolsToSubscribe:
  "set (symbolsToSubscribe syms s) = toLowerCase ` set syms - set (subscribedSymbols s)"
  by (auto simp: symbolsToSubscribe_def set_new_Set)

lemma set_symbolsToUnsubscribe:
  "set (symbolsToUnsubscribe syms s) = set (subscribedSymbols s) - toLowerCase ` set syms"
  by (auto simp: symbolsToUnsubscribe_def set_new_Set)

lemma distinct_new_Set: "distinct (new_Set xs)"
  by (simp add: new_Set_def distinct_foldl_Set_add)

lemma subscribedSymbols_send [simp]:
  "subscribedSymbols (sendSubscriptionMessage clk m xs s) = subscribedSymbols s"
  by (simp add: sendSubscriptionMessage_def Let_def)

lemma websocketSubject_send [simp]:
  "websocketSubject (sendSubscriptionMessage clk m xs s) = websocketSubject s"
  by (simp add: sendSubscriptionMessage_def Let_def)

lemma send_not_connected: "\<not> connected s \<Longrightarrow> sendSubscriptionMessage clk m xs s = s"
  by (simp add: sendSubscriptionMessage_def)

lemma set_subscribedSymbols_subscribe:
  "set (subscribedSymbols (subscribeToTradeStream clk syms s)) = toLowerCase ` set syms"
  unfolding subscribeToTradeStream_def Let_def
  by (auto simp: set_foldl_Set_add set_foldl_Set_delete set_symbolsToSubscribe
      set_symbolsToUnsubscribe simp flip: set_empty)

lemma distinct_subscribedSymbols_subscribe:
  "distinct (subscribedSymbols s) \<Longrightarrow>
   distinct (subscribedSymbols (subscribeToTradeStream clk syms s))"
  by (simp add: subscribeToTradeStream_def Let_def distinct_foldl_Set_add
      distinct_foldl_Set_delete)

lemma connected_send [simp]: "connected (sendSubscriptionMessage clk m xs s) = connected s"
  by (simp add: connected_def)

lemma wire_send:
  "wire (sendSubscriptionMessage clk m xs s) =
     (if connected s
      then wire s @ [\<lparr>msg_method = m, msg_params = map (\<lambda>x. toLowerCase x @ ''@trade'') xs,
                       msg_id = clk (clockReads s)\<rparr>]
      else wire s)"
  by (simp add: sendSubscriptionMessage_def Let_def)

lemma websocketSubject_subscribe [simp]:
  "websocketSubject (subscribeToTradeStream clk syms s) = websocketSubject s"
  by (simp add: subscribeToTradeStream_def Let_def)

lemma connected_subscribe [simp]: "connected (subscribeToTradeStream clk syms s) = connected s"
  by (simp add: connected_def)

lemma wire_subscribe_not_connected:
  "\<not> connected s \<Longrightarrow> wire (subscribeToTradeStream clk syms s) = wire s"
  by (simp add: subscribeToTradeStream_def Let_def send_not_connected connected_def)

lemma clockReads_subscribe_not_connected:
  "\<not> connected s \<Longrightarrow> clockReads (subscribeToTradeStream clk syms s) = clockReads s"
  by (simp add: subscribeToTradeStream_def Let_def send_not_connected connected_def)

lemma subscribe_noop:
  assumes "toLowerCase ` set syms = set (subscribedSymbols s)"
  shows "symbolsToSubscribe syms s = []" and "symbolsToUnsubscribe syms s = []"
    and "subscribeToTradeStream clk syms s = s"
proof -
  have "set (symbolsToSubscribe syms s) = {}" and "set (symbolsToUnsubscribe syms s) = {}"
    using assms by (simp_all add: set_symbolsToSubscribe set_symbolsToUnsubscribe)
  then show "symbolsToSubscribe syms s = []" and "symbolsToUnsubscribe syms s = []"
    by simp_all
  then show "subscribeToTradeStream clk syms s = s"
    by (simp add: subscribeToTradeStream_def)
qed

section \<open>Subscription reconciliation\<close>

text \<open>
  C1. In \<^verbatim>\<open>subscribeToTradeStream\<close> the symbols to subscribe are the lower-cased desired
  symbols that are not in the subscribed set, the symbols to unsubscribe are the
  subscribed symbols that are not among the lower-cased desired ones, and the two are
  disjoint. When the lower-cased desired symbols are exactly the subscribed set, both
  are empty and the call changes nothing: no message is handed to the websocket. So a
  second call with the same symbols, right after the first, changes nothing either.
  Every symbol the set holds after a call is in lower case.
\<close>

theorem subscribeToTradeStream_reconciles:
  "set (symbolsToSubscribe syms s) = toLowerCase ` set syms - set (subscribedSymbols s) \<and>
   set (symbolsToUnsubscribe syms s) = set (subscribedSymbols s) - toLowerCase ` set syms \<and>
   set (symbolsToSubscribe syms s) \<inter> set (symbolsToUnsubscribe syms s) = {} \<and>
   (toLowerCase ` set syms = set (subscribedSymbols s) \<longrightarrow>
      symbolsToSubscribe syms s = [] \<and> symbolsToUnsubscribe syms s = [] \<and>
      subscribeToTradeStream clk syms s = s) \<and>
   subscribeToTradeStream clk' syms (subscribeToTradeStream clk syms s) =
     subscribeToTradeStream clk syms s \<and>
   wire (subscribeToTradeStream clk' syms (subscribeToTradeStream clk syms s)) =
     wire (subscribeToTradeStream clk syms s) \<and>
   (\<forall>x \<in> set (subscribedSymbols (subscribeToTradeStream clk syms s)). toLowerCase x = x)"
proof -
  have twice: "subscribeToTradeStream clk' syms (subscribeToTradeStream clk syms s) =
      subscribeToTradeStream clk syms s"
    by (rule subscribe_noop(3)) (simp add: set_subscribedSymbols_subscribe)
  have lower: "\<forall>x \<in> set (subscribedSymbols (subscribeToTradeStream clk syms s)). toLowerCase x = x"
    by (auto simp: set_subscribedSymbols_subscribe toLowerCase_idem)
  have disj: "set (symbolsToSubscribe syms s) \<inter> set (symbolsToUnsubscribe syms s) = {}"
    by (auto simp: set_symbolsToSubscribe set_symbolsToUnsubscribe)
  show ?thesis
    using twice lower disj
    by (simp add: set_symbolsToSubscribe set_symbolsToUnsubscribe subscribe_noop)
qed

theorem subscribeToTradeStream_reconciles_witness:
  "toLowerCase ` set [''btcusdt'', ''EthUsdt''] =
     set (subscribedSymbols (subscribeToTradeStream (\<lambda>k. 0) [''BTCUSDT'', ''ETHUSDT''] constructor)) \<and>
   symbolsToSubscribe [''btcusdt'', ''EthUsdt'']
     (subscribeToTradeStream (\<lambda>k. 0) [''BTCUSDT'', ''ETHUSDT''] constructor) = [] \<and>
   symbolsToUnsubscribe [''btcusdt'', ''EthUsdt'']
     (subscribeToTradeStream (\<lambda>k. 0) [''BTCUSDT'', ''ETHUSDT''] constructor) = [] \<and>
   wire (subscribeToTradeStream (\<lambda>k. 1) [''btcusdt'', ''EthUsdt'']
     (subscribeToTradeStream (\<lambda>k. 0) [''BTCUSDT'', ''ETHUSDT''] constructor)) =
     [\<lparr>msg_method = SUBSCRIBE, msg_params = [''btcusdt@trade'', ''ethusdt@trade''], msg_id = 0\<rparr>]"
proof -
  let ?s = "subscribeToTradeStream (\<lambda>k. 0) [''BTCUSDT'', ''ETHUSDT''] constructor"
  have h: "toLowerCase ` set [''btcusdt'', ''EthUsdt''] = set (subscribedSymbols ?s)"
    by code_simp
  have w: "wire ?s =
      [\<lparr>msg_method = SUBSCRIBE, msg_params = [''btcusdt@trade'', ''ethusdt@trade''], msg_id = 0\<rparr>]"
    by code_simp
  from subscribeToTradeStream_reconciles [of "[''btcusdt'', ''EthUsdt'']" ?s "\<lambda>k. 1"] h
  have "symbolsToSubscribe [''btcusdt'', ''EthUsdt''] ?s = []"
    and "symbolsToUnsubscribe [''btcusdt'', ''EthUsdt''] ?s = []"
    and "subscribeToTradeStream (\<lambda>k. 1) [''btcusdt'', ''EthUsdt''] ?s = ?s"
    by blast+
  with h w show ?thesis by simp
qed

text \<open>
  C10. After \<^verbatim>\<open>subscribeToTradeStream(symbols)\<close> the subscribed set is exactly the set
  of the lower-cased symbols, whatever the state of the connection. Without a
  websocket, or with a closed one, nothing is handed to it, the websocket field is
  left as it is, and the set is updated all the same.
\<close>

theorem subscribedSymbols_after_subscribeToTradeStream:
  "set (subscribedSymbols (subscribeToTradeStream clk syms s)) = toLowerCase ` set syms \<and>
   (\<not> connected s \<longrightarrow>
      wire (subscribeToTradeStream clk syms s) = wire s \<and>
      websocketSubject (subscribeToTradeStream clk syms s) = websocketSubject s)"
  by (simp add: set_subscribedSymbols_subscribe wire_subscribe_not_connected)

theorem subscribedSymbols_after_subscribeToTradeStream_witness:
  "\<not> connected (closeObserver_next constructor) \<and>
   subscribedSymbols (closeObserver_next constructor) = [] \<and>
   set (subscribedSymbols
         (subscribeToTradeStream (\<lambda>k. 0) [''BTCUSDT'', ''ethusdt''] (closeObserver_next constructor)))
     = {''btcusdt'', ''ethusdt''} \<and>
   wire (subscribeToTradeStream (\<lambda>k. 0) [''BTCUSDT'', ''ethusdt''] (closeObserver_next constructor))
     = []"
proof -
  let ?s = "closeObserver_next constructor"
  have h: "\<not> connected ?s" by code_simp
  have e: "subscribedSymbols ?s = []" by code_simp
  have w: "wire ?s = []" by code_simp
  have l: "toLowerCase ` set [''BTCUSDT'', ''ethusdt''] = {''btcusdt'', ''ethusdt''}" by code_simp
  from subscribedSymbols_after_subscribeToTradeStream
         [of "\<lambda>k. 0" "[''BTCUSDT'', ''ethusdt'']" ?s] h
  have "set (subscribedSymbols (subscribeToTradeStream (\<lambda>k. 0) [''BTCUSDT'', ''ethusdt''] ?s))
          = toLowerCase ` set [''BTCUSDT'', ''ethusdt'']"
    and "wire (subscribeToTradeStream (\<lambda>k. 0) [''BTCUSDT'', ''ethusdt''] ?s) = wire ?s"
    by blast+
  with h e w l show ?thesis by (simp only: simp_thms)
qed

section \<open>Fan-out of inbound frames\<close>

lemma tradeShape_iff: "tradeShape message \<longleftrightarrow> truthy message \<and> getProp message ''e'' = JStr ''trade''"
  by (cases message) (auto simp: tradeShape_def split: option.splits)

lemma message_next_trade:
  "tradeShape message \<Longrightarrow>
   message_next message s =
     s\<lparr>tradeDataStream := map (\<lambda>received. received @ [message]) (tradeDataStream s)\<rparr>"
  by (simp add: message_next_def tradeShape_iff tradeDataStream_next_def)

lemma message_next_other: "\<not> tradeShape message \<Longrightarrow> message_next message s = s"
  by (auto simp: message_next_def tradeShape_iff)

lemma tradeDataStream_messages:
  "tradeDataStream (foldl (\<lambda>s m. message_next m s) s messages) =
     map (\<lambda>received. received @ filter tradeShape messages) (tradeDataStream s)"
proof (induction messages arbitrary: s)
  case Nil
  show ?case by simp
next
  case (Cons m messages)
  show ?case
  proof (cases "tradeShape m")
    case True
    then show ?thesis by (simp add: Cons.IH message_next_trade)
  next
    case False
    then show ?thesis by (simp add: Cons.IH message_next_other)
  qed
qed

text \<open>
  C7. An inbound frame is handed, as it is, to every listener of \<^verbatim>\<open>tradeData$\<close> when it
  has the trade-event shape, and nothing else in the service changes; any other frame
  (an acknowledgment carrying \<^verbatim>\<open>result\<close>, \<^verbatim>\<open>null\<close>, any other shape) leaves the service as
  it was. Over a sequence of frames every listener therefore receives exactly the frames
  of trade-event shape, in the order of arrival, appended to what it had.
\<close>

theorem trade_frames_fan_out:
  "(tradeShape message \<longrightarrow>
      message_next message s =
        s\<lparr>tradeDataStream := map (\<lambda>received. received @ [message]) (tradeDataStream s)\<rparr>) \<and>
   (\<not> tradeShape message \<longrightarrow> message_next message s = s) \<and>
   tradeDataStream (foldl (\<lambda>s m. message_next m s) s messages) =
     map (\<lambda>received. received @ filter tradeShape messages) (tradeDataStream s)"
  using message_next_trade message_next_other tradeDataStream_messages by blast

theorem trade_frames_fan_out_witness:
  "tradeShape (JObj [(''e'', JStr ''trade''), (''E'', JNum 1700000000000), (''s'', JStr ''ETHUSDT''),
                     (''t'', JNum 12345), (''p'', JStr ''2000.10''), (''q'', JStr ''0.5'')]) \<and>
   \<not> tradeShape (JObj [(''result'', JNull), (''id'', JNum 1700000000000)]) \<and>
   tradeDataStream
     (message_next (JObj [(''result'', JNull), (''id'', JNum 1700000000000)])
       (message_next (JObj [(''e'', JStr ''trade''), (''E'', JNum 1700000000000), (''s'', JStr ''ETHUSDT''),
                            (''t'', JNum 12345), (''p'', JStr ''2000.10''), (''q'', JStr ''0.5'')])
         (tradeData_subscribe (tradeData_subscribe constructor)))) =
     [[JObj [(''e'', JStr ''trade''), (''E'', JNum 1700000000000), (''s'', JStr ''ETHUSDT''),
             (''t'', JNum 12345), (''p'', JStr ''2000.10''), (''q'', JStr ''0.5'')]],
      [JObj [(''e'', JStr ''trade''), (''E'', JNum 1700000000000), (''s'', JStr ''ETHUSDT''),
             (''t'', JNum 12345), (''p'', JStr ''2000.10''), (''q'', JStr ''0.5'')]]]"
proof -
  let ?trade = "JObj [(''e'', JStr ''trade''), (''E'', JNum 1700000000000), (''s'', JStr ''ETHUSDT''),
                     (''t'', JNum 12345), (''p'', JStr ''2000.10''), (''q'', JStr ''0.5'')]"
  let ?ack = "JObj [(''result'', JNull), (''id'', JNum 1700000000000)]"
  let ?s = "tradeData_subscribe (tradeData_subscribe constructor)"
  have t: "tradeShape ?trade" by (simp add: tradeShape_def)
  have a: "\<not> tradeShape ?ack" by (simp add: tradeShape_def)
  have l: "tradeDataStream ?s = [[], []]" by code_simp
  have 1: "message_next ?trade ?s =
        ?s\<lparr>tradeDataStream := map (\<lambda>received. received @ [?trade]) (tradeDataStream ?s)\<rparr>"
    using trade_frames_fan_out [of ?trade ?s "[]"] t by blast
  have 2: "message_next ?ack (message_next ?trade ?s) = message_next ?trade ?s"
    using trade_frames_fan_out [of ?ack "message_next ?trade ?s" "[]"] a by blast
  have 3: "tradeDataStream (message_next ?ack (message_next ?trade ?s)) =
        map (\<lambda>received. received @ [?trade]) (tradeDataStream ?s)"
    by (subst 2, subst 1) simp
  show ?thesis
    using t a by (simp only: 3 l) simp
qed

section \<open>Historical candles\<close>

lemma klineOfItem_12:
  "length item = 12 \<Longrightarrow>
   klineOfItem item =
     \<lparr>openTime = item ! 0, open = item ! 1, high = item ! 2, low = item ! 3,
      close = item ! 4, volume = item ! 5, closeTime = item ! 6,
      quoteAssetVolume = item ! 7, numberOfTrades = item ! 8,
      takerBuyBaseAssetVolume = item ! 9, takerBuyQuoteAssetVolume = item ! 10,
      ignore = item ! 11\<rparr>"
  by (simp add: klineOfItem_def at_def)

lemma klines_response_success:
  assumes "i < length (klinesObservables s)" and "inFlight (klinesObservables s ! i)"
  shows "klines_response i (Inr data) s =
           s\<lparr>klinesObservables :=
                (klinesObservables s)[i := (klinesObservables s ! i)
                   \<lparr>observers := notify (Inr (map klineOfItem data))
                                   (observers (klinesObservables s ! i)),
                    inFlight := False,
                    replay := Some (map klineOfItem data)\<rparr>]\<rparr>"
  using assms by (simp add: klines_response_def shared_response_def Let_def)

text \<open>
  C2. When the request of \<^verbatim>\<open>getKlines\<close> is answered with candles of 12 elements each,
  every tuple becomes the record whose fields are the tuple's elements by position:
  0 \<^verbatim>\<open>openTime\<close>, 1 \<^verbatim>\<open>open\<close>, 2 \<^verbatim>\<open>high\<close>, 3 \<^verbatim>\<open>low\<close>, 4 \<^verbatim>\<open>close\<close>, 5 \<^verbatim>\<open>volume\<close>,
  6 \<^verbatim>\<open>closeTime\<close>, 7 \<^verbatim>\<open>quoteAssetVolume\<close>, 8 \<^verbatim>\<open>numberOfTrades\<close>, 9, 10 the taker volumes,
  11 \<^verbatim>\<open>ignore\<close>. Each field is the very value of the tuple, so a decimal string stays the
  same string. This list of records is what the waiting subscribers are given and what
  is kept for replay.
\<close>

theorem getKlines_decodes_by_position:
  assumes "i < length (klinesObservables s)"
    and "inFlight (klinesObservables s ! i)"
    and "\<forall>item \<in> set data. length item = 12"
  shows "replay (klinesObservables (klines_response i (Inr data) s) ! i) =
           Some (map (\<lambda>item.
                   \<lparr>openTime = item ! 0, open = item ! 1, high = item ! 2, low = item ! 3,
                    close = item ! 4, volume = item ! 5, closeTime = item ! 6,
                    quoteAssetVolume = item ! 7, numberOfTrades = item ! 8,
                    takerBuyBaseAssetVolume = item ! 9, takerBuyQuoteAssetVolume = item ! 10,
                    ignore = item ! 11\<rparr>) data) \<and>
         observers (klinesObservables (klines_response i (Inr data) s) ! i) =
           notify (Inr (map (\<lambda>item.
                   \<lparr>openTime = item ! 0, open = item ! 1, high = item ! 2, low = item ! 3,
                    close = item ! 4, volume = item ! 5, closeTime = item ! 6,
                    quoteAssetVolume = item ! 7, numberOfTrades = item ! 8,
                    takerBuyBaseAssetVolume = item ! 9, takerBuyQuoteAssetVolume = item ! 10,
                    ignore = item ! 11\<rparr>) data))
             (observers (klinesObservables s ! i))"
proof -
  have eq: "map klineOfItem data =
        map (\<lambda>item.
               \<lparr>openTime = item ! 0, open = item ! 1, high = item ! 2, low = item ! 3,
                close = item ! 4, volume = item ! 5, closeTime = item ! 6,
                quoteAssetVolume = item ! 7, numberOfTrades = item ! 8,
                takerBuyBaseAssetVolume = item ! 9, takerBuyQuoteAssetVolume = item ! 10,
                ignore = item ! 11\<rparr>) data"
    using assms(3) by (intro map_cong refl klineOfItem_12) simp
  show ?thesis
    unfolding eq [symmetric]
    using assms(1) by (simp add: klines_response_success [OF assms(1) assms(2)])
qed

lemma klines_example_state:
  "klines_subscribe 0 (snd (getKlines ''btcusdt'' ''1m'' (Some 1) None None constructor)) =
     constructor
       \<lparr>klinesObservables :=
          [\<lparr>source = \<lparr>url = ''https://api.binance.com/api/v3/klines'',
                      query = [(''symbol'', JStr ''BTCUSDT''), (''interval'', JStr ''1m''),
                               (''limit'', JNum 1)]\<rparr>,
            observers = [None], soFar = 0, inFlight = True, replay = None\<rparr>],
        network := network constructor @
          [\<lparr>url = ''https://api.binance.com/api/v3/klines'',
            query = [(''symbol'', JStr ''BTCUSDT''), (''interval'', JStr ''1m''),
                     (''limit'', JNum 1)]\<rparr>]\<rparr>"
  by code_simp

theorem getKlines_decodes_by_position_witness:
  "observers
     (klinesObservables
        (klines_response 0
           (Inr [[JNum 1700000000000, JStr ''50000.00'', JStr ''50100.00'', JStr ''49900.00'',
                  JStr ''50050.00'', JStr ''12.5'', JNum 1700000059999, JStr ''625625.00'',
                  JNum 150, JStr ''6.0'', JStr ''300300.00'', JStr ''0'']])
           (klines_subscribe 0
              (snd (getKlines ''btcusdt'' ''1m'' (Some 1) None None constructor)))) ! 0) =
   [Some (Inr [\<lparr>openTime = JNum 1700000000000, open = JStr ''50000.00'',
                 high = JStr ''50100.00'', low = JStr ''49900.00'', close = JStr ''50050.00'',
                 volume = JStr ''12.5'', closeTime = JNum 1700000059999,
                 quoteAssetVolume = JStr ''625625.00'', numberOfTrades = JNum 150,
                 takerBuyBaseAssetVolume = JStr ''6.0'',
                 takerBuyQuoteAssetVolume = JStr ''300300.00'', ignore = JStr ''0''\<rparr>])]"
proof -
  let ?s = "klines_subscribe 0 (snd (getKlines ''btcusdt'' ''1m'' (Some 1) None None constructor))"
  let ?data = "[[JNum 1700000000000, JStr ''50000.00'', JStr ''50100.00'', JStr ''49900.00'',
                  JStr ''50050.00'', JStr ''12.5'', JNum 1700000059999, JStr ''625625.00'',
                  JNum 150, JStr ''6.0'', JStr ''300300.00'', JStr ''0'']]"
  have a: "0 < length (klinesObservables ?s)" by (simp add: klines_example_state)
  have b: "inFlight (klinesObservables ?s ! 0)" by (simp add: klines_example_state)
  have c: "\<forall>item \<in> set ?data. length item = 12" by simp
  have d: "observers (klinesObservables ?s ! 0) = [None]" by (simp add: klines_example_state)
  show ?thesis
    using getKlines_decodes_by_position [OF a b c]
    by (simp add: d notify_def)
qed

text \<open>
  C9. \<^verbatim>\<open>getKlines\<close> tests \<^verbatim>\<open>startTime\<close> and \<^verbatim>\<open>endTime\<close> by truthiness, so the number 0 is
  treated as an absent argument: a call with \<^verbatim>\<open>startTime\<close> 0 (or \<^verbatim>\<open>endTime\<close> 0) returns
  the observable of the call without that argument, and the query of its request has
  no \<^verbatim>\<open>startTime\<close> (or \<^verbatim>\<open>endTime\<close>) parameter.
\<close>

theorem getKlines_drops_time_zero:
  "getKlines symb interval limit (Some 0) endTime s = getKlines symb interval limit None endTime s \<and>
   getKlines symb interval limit startTime (Some 0) s = getKlines symb interval limit startTime None s \<and>
   map_of (query (source (klinesObservables (snd (getKlines symb interval limit (Some 0) endTime s))
                            ! fst (getKlines symb interval limit (Some 0) endTime s))))
     ''startTime'' = None \<and>
   map_of (query (source (klinesObservables (snd (getKlines symb interval limit startTime (Some 0) s))
                            ! fst (getKlines symb interval limit startTime (Some 0) s))))
     ''endTime'' = None \<and>
   network (klines_subscribe (fst (getKlines symb interval limit (Some 0) endTime s))
              (snd (getKlines symb interval limit (Some 0) endTime s))) =
     network s @
       [source (klinesObservables (snd (getKlines symb interval limit (Some 0) endTime s))
                  ! fst (getKlines symb interval limit (Some 0) endTime s))]"
  by (simp add: getKlines_def optnum_def Let_def new_shared_def klines_subscribe_def
      shared_subscribe_def nth_append)

theorem getKlines_drops_time_zero_witness:
  "query (source (klinesObservables
            (snd (getKlines ''btcusdt'' ''1h'' (Some 100) (Some 0) (Some 1700000000000) constructor))
          ! fst (getKlines ''btcusdt'' ''1h'' (Some 100) (Some 0) (Some 1700000000000) constructor))) =
     [(''symbol'', JStr ''BTCUSDT''), (''interval'', JStr ''1h''), (''limit'', JNum 100),
      (''endTime'', JNum 1700000000000)] \<and>
   getKlines ''btcusdt'' ''1h'' (Some 100) (Some 0) (Some 1700000000000) constructor =
     getKlines ''btcusdt'' ''1h'' (Some 100) None (Some 1700000000000) constructor"
proof -
  have q: "query (source (klinesObservables
            (snd (getKlines ''btcusdt'' ''1h'' (Some 100) None (Some 1700000000000) constructor))
          ! fst (getKlines ''btcusdt'' ''1h'' (Some 100) None (Some 1700000000000) constructor))) =
     [(''symbol'', JStr ''BTCUSDT''), (''interval'', JStr ''1h''), (''limit'', JNum 100),
      (''endTime'', JNum 1700000000000)]"
    by code_simp
  have e: "getKlines ''btcusdt'' ''1h'' (Some 100) (Some 0) (Some 1700000000000) constructor =
      getKlines ''btcusdt'' ''1h'' (Some 100) None (Some 1700000000000) constructor"
    using getKlines_drops_time_zero
            [of "''btcusdt''" "''1h''" "Some 100" "Some 1700000000000" constructor]
    by blast
  show ?thesis
    by (simp only: e q simp_thms)
qed

section \<open>The instrument directory\<close>

lemma notify_nth:
  "k < length obs \<Longrightarrow>
   notify n obs ! k = (case obs ! k of None \<Rightarrow> Some n | Some x \<Rightarrow> Some x)"
  by (simp add: notify_def)

lemma exchangeInfo_response_success:
  assumes "i < length (exchangeInfoObservables s)"
    and "inFlight (exchangeInfoObservables s ! i)"
  shows "exchangeInfo_response i (Inr info) s =
           s\<lparr>exchangeInfoObservables :=
                (exchangeInfoObservables s)[i := (exchangeInfoObservables s ! i)
                   \<lparr>observers := notify (Inr (filter (\<lambda>x. status x = ''TRADING'') (symbols info)))
                                   (observers (exchangeInfoObservables s ! i)),
                    inFlight := False,
                    replay := Some (filter (\<lambda>x. status x = ''TRADING'') (symbols info))\<rparr>],
             exchangeInfoSubject := filter (\<lambda>x. status x = ''TRADING'') (symbols info)\<rparr>"
  using assms by (simp add: exchangeInfo_response_def shared_response_def Let_def)

text \<open>
  C8. When the request of \<^verbatim>\<open>getExchangeInfo\<close> is answered with a directory, the list
  given to every waiting subscriber is the directory's entries whose \<^verbatim>\<open>status\<close> is
  \<^verbatim>\<open>TRADING\<close>, in the directory's order; the same list becomes the value of
  \<^verbatim>\<open>_exchangeInfoSubject\<close>, which \<^verbatim>\<open>exchangeInfo$\<close> shows, and the value kept for replay.
\<close>

theorem getExchangeInfo_publishes_tradable:
  assumes "i < length (exchangeInfoObservables s)"
    and "inFlight (exchangeInfoObservables s ! i)"
  shows "exchangeInfoSubject (exchangeInfo_response i (Inr info) s) =
           filter (\<lambda>x. status x = ''TRADING'') (symbols info) \<and>
         replay (exchangeInfoObservables (exchangeInfo_response i (Inr info) s) ! i) =
           Some (exchangeInfoSubject (exchangeInfo_response i (Inr info) s)) \<and>
         length (observers (exchangeInfoObservables (exchangeInfo_response i (Inr info) s) ! i)) =
           length (observers (exchangeInfoObservables s ! i)) \<and>
         (\<forall>k < length (observers (exchangeInfoObservables s ! i)).
            observers (exchangeInfoObservables s ! i) ! k = None \<longrightarrow>
            observers (exchangeInfoObservables (exchangeInfo_response i (Inr info) s) ! i) ! k =
              Some (Inr (exchangeInfoSubject (exchangeInfo_response i (Inr info) s)))) \<and>
         set (exchangeInfoSubject (exchangeInfo_response i (Inr info) s)) =
           {x \<in> set (symbols info). status x = ''TRADING''}"
  using assms(1)
  by (simp add: exchangeInfo_response_success [OF assms] notify_nth) (simp add: notify_def)

theorem getExchangeInfo_publishes_tradable_witness:
  "exchangeInfoSubject
     (exchangeInfo_response 0
        (Inr \<lparr>timezone = ''UTC'', serverTime = 1700000000000, rateLimits = [],
              exchangeFilters = [],
              symbols =
                [\<lparr>symbol = ''BTCUSDT'', status = ''TRADING'', baseAsset = ''BTC'',
                   baseAssetPrecision = 8, quoteAsset = ''USDT'', quotePrecision = 8,
                   quoteAssetPrecision = 8, baseCommissionPrecision = 8,
                   quoteCommissionPrecision = 8, orderTypes = [''LIMIT'', ''MARKET''],
                   icebergAllowed = True, ocoAllowed = True,
                   quoteOrderQtyMarketAllowed = True, isSpotTradingAllowed = True,
                   isMarginTradingAllowed = True, filters = [], permissions = [''SPOT''],
                   defaultSelfTradePreventionMode = ''EXPIRE_MAKER'',
                   allowedSelfTradePreventionModes = [''EXPIRE_MAKER'']\<rparr>,
                 \<lparr>symbol = ''LUNAUSDT'', status = ''BREAK'', baseAsset = ''LUNA'',
                   baseAssetPrecision = 8, quoteAsset = ''USDT'', quotePrecision = 8,
                   quoteAssetPrecision = 8, baseCommissionPrecision = 8,
                   quoteCommissionPrecision = 8, orderTypes = [''LIMIT''],
                   icebergAllowed = False, ocoAllowed = False,
                   quoteOrderQtyMarketAllowed = False, isSpotTradingAllowed = False,
                   isMarginTradingAllowed = False, filters = [], permissions = [],
                   defaultSelfTradePreventionMode = ''NONE'',
                   allowedSelfTradePreventionModes = [''NONE'']\<rparr>]\<rparr>)
        constructor) =
     [\<lparr>symbol = ''BTCUSDT'', status = ''TRADING'', baseAsset = ''BTC'',
       baseAssetPrecision = 8, quoteAsset = ''USDT'', quotePrecision = 8,
       quoteAssetPrecision = 8, baseCommissionPrecision = 8,
       quoteCommissionPrecision = 8, orderTypes = [''LIMIT'', ''MARKET''],
       icebergAllowed = True, ocoAllowed = True,
       quoteOrderQtyMarketAllowed = True, isSpotTradingAllowed = True,
       isMarginTradingAllowed = True, filters = [], permissions = [''SPOT''],
       defaultSelfTradePreventionMode = ''EXPIRE_MAKER'',
       allowedSelfTradePreventionModes = [''EXPIRE_MAKER'']\<rparr>] \<and>
   observers (exchangeInfoObservables constructor ! 0) = [None]"
proof -
  have a: "0 < length (exchangeInfoObservables constructor)" by code_simp
  have b: "inFlight (exchangeInfoObservables constructor ! 0)" by code_simp
  have c: "observers (exchangeInfoObservables constructor ! 0) = [None]" by code_simp
  show ?thesis
    using getExchangeInfo_publishes_tradable [OF a b] c by simp
qed

section \<open>Retries and sharing of the REST requests\<close>

lemma retry_http: "retry http_retry n = (if n < 3 then Resubscribe 0 else Propagate)"
  by (simp add: retry_def http_retry_def)

lemma getKlines_index:
  "getKlines symb interval limit startTime endTime s = (i, s0) \<Longrightarrow> i = length (klinesObservables s)"
  by (auto simp: getKlines_def Let_def)

lemma getKlines_others:
  "getKlines symb interval limit startTime endTime s = (i, s0) \<Longrightarrow>
   s0 = s\<lparr>klinesObservables := klinesObservables s @ [new_shared (source (klinesObservables s0 ! i))]\<rparr>"
  by (auto simp: getKlines_def Let_def new_shared_def)

lemma klines_subscribe_new:
  assumes "i < length (klinesObservables s)" and "klinesObservables s ! i = new_shared r"
  shows "klines_subscribe i s =
           s\<lparr>klinesObservables :=
                (klinesObservables s)[i := \<lparr>source = r, observers = [None], soFar = 0,
                                           inFlight = True, replay = None\<rparr>],
             network := network s @ [r]\<rparr>"
  using assms by (simp add: klines_subscribe_def shared_subscribe_def new_shared_def)

lemma klines_subscribe_inFlight:
  assumes "i < length (klinesObservables s)" and "inFlight (klinesObservables s ! i)"
    and "replay (klinesObservables s ! i) = None"
  shows "klines_subscribe i s =
           s\<lparr>klinesObservables :=
                (klinesObservables s)[i := (klinesObservables s ! i)
                   \<lparr>observers := observers (klinesObservables s ! i) @ [None]\<rparr>]\<rparr>"
  using assms by (simp add: klines_subscribe_def shared_subscribe_def)

lemma getKlines_subscribe:
  assumes "getKlines symb interval limit startTime endTime s = (i, s0)"
  shows "klines_subscribe i s0 =
           s\<lparr>klinesObservables :=
                klinesObservables s @
                  [\<lparr>source = source (klinesObservables s0 ! i), observers = [None], soFar = 0,
                    inFlight = True, replay = None\<rparr>],
             network := network s @ [source (klinesObservables s0 ! i)]\<rparr>"
proof -
  have i: "i = length (klinesObservables s)"
    by (rule getKlines_index [OF assms])
  note s0 = getKlines_others [OF assms]
  have a: "i < length (klinesObservables s0)"
    by (subst s0) (simp add: i)
  have b: "klinesObservables s0 ! i = new_shared (source (klinesObservables s0 ! i))"
    by (subst s0) (simp add: i)
  have "klines_subscribe i s0 =
          s0\<lparr>klinesObservables :=
                (klinesObservables s0)[i := \<lparr>source = source (klinesObservables s0 ! i),
                   observers = [None], soFar = 0, inFlight = True, replay = None\<rparr>],
             network := network s0 @ [source (klinesObservables s0 ! i)]\<rparr>"
    by (rule klines_subscribe_new [OF a b])
  also have "\<dots> = s\<lparr>klinesObservables :=
                klinesObservables s @
                  [\<lparr>source = source (klinesObservables s0 ! i), observers = [None], soFar = 0,
                    inFlight = True, replay = None\<rparr>],
             network := network s @ [source (klinesObservables s0 ! i)]\<rparr>"
    by (subst (1 2 3) s0) (simp add: i)
  finally show ?thesis .
qed

lemma klines_response_retry:
  assumes "i < length (klinesObservables s)" and "inFlight (klinesObservables s ! i)"
    and "soFar (klinesObservables s ! i) < 3"
  shows "klines_response i (Inl e) s =
           s\<lparr>klinesObservables :=
                (klinesObservables s)[i := (klinesObservables s ! i)
                                        \<lparr>soFar := Suc (soFar (klinesObservables s ! i))\<rparr>],
             network := network s @ [source (klinesObservables s ! i)]\<rparr>"
  using assms by (simp add: klines_response_def shared_response_def retry_http)

lemma klines_response_exhausted:
  assumes "i < length (klinesObservables s)" and "inFlight (klinesObservables s ! i)"
    and "soFar (klinesObservables s ! i) = 3"
  shows "klines_response i (Inl e) s =
           s\<lparr>klinesObservables :=
                (klinesObservables s)[i := (klinesObservables s ! i)
                   \<lparr>observers := notify (Inl e) (observers (klinesObservables s ! i)),
                    inFlight := False\<rparr>]\<rparr>"
  using assms by (simp add: klines_response_def shared_response_def retry_http)

lemma klines_response_errors:
  assumes "i < length (klinesObservables s)" and "inFlight (klinesObservables s ! i)"
    and "soFar (klinesObservables s ! i) + length es \<le> 3"
  shows "foldl (\<lambda>s e. klines_response i (Inl e) s) s es =
           s\<lparr>klinesObservables :=
                (klinesObservables s)[i := (klinesObservables s ! i)
                                        \<lparr>soFar := soFar (klinesObservables s ! i) + length es\<rparr>],
             network := network s @ replicate (length es) (source (klinesObservables s ! i))\<rparr>"
  using assms
proof (induction es arbitrary: s)
  case Nil
  then show ?case by simp
next
  case (Cons e es)
  let ?s = "klines_response i (Inl e) s"
  have lt: "soFar (klinesObservables s ! i) < 3" using Cons.prems by simp
  note step = klines_response_retry [OF Cons.prems(1) Cons.prems(2) lt, of e]
  have a: "i < length (klinesObservables ?s)" using Cons.prems by (simp add: step)
  have b: "inFlight (klinesObservables ?s ! i)" using Cons.prems by (simp add: step)
  have c: "soFar (klinesObservables ?s ! i) + length es \<le> 3" using Cons.prems by (simp add: step)
  have "foldl (\<lambda>s e. klines_response i (Inl e) s) s (e # es) =
        foldl (\<lambda>s e. klines_response i (Inl e) s) ?s es" by simp
  also note Cons.IH [OF a b c]
  finally show ?case
    using Cons.prems by (simp add: step replicate_app_Cons_same)
qed

lemma getKlines_after_errors:
  assumes "getKlines symb interval limit startTime endTime s = (i, s0)" and "length es \<le> 3"
  shows "foldl (\<lambda>s e. klines_response i (Inl e) s) (klines_subscribe i s0) es =
           s\<lparr>klinesObservables :=
                klinesObservables s @
                  [\<lparr>source = source (klinesObservables s0 ! i), observers = [None],
                    soFar = length es, inFlight = True, replay = None\<rparr>],
             network := network s @ replicate (Suc (length es)) (source (klinesObservables s0 ! i))\<rparr>"
proof -
  have i: "i = length (klinesObservables s)"
    by (rule getKlines_index [OF assms(1)])
  note s1 = getKlines_subscribe [OF assms(1)]
  have a: "i < length (klinesObservables (klines_subscribe i s0))"
    unfolding s1 by (simp add: i)
  have b: "inFlight (klinesObservables (klines_subscribe i s0) ! i)"
    unfolding s1 by (simp add: i)
  have c: "soFar (klinesObservables (klines_subscribe i s0) ! i) + length es \<le> 3"
    unfolding s1 using assms(2) by (simp add: i)
  show ?thesis
    unfolding klines_response_errors [OF a b c]
    unfolding s1
    by (simp add: i replicate_append_same)
qed

text \<open>
  C3, as the code has it. \<^verbatim>\<open>retry(3)\<close> does not look at the error: after a call of
  \<^verbatim>\<open>getKlines\<close> and its subscription, each of up to three failures, of whatever status,
  is answered by issuing the same request again, and the subscriber is told nothing;
  a body that arrives then is decoded and given to the subscriber. A fourth failure in
  a row is given to the subscriber as it is, the last error itself, and no further
  request is issued.
\<close>

theorem getKlines_retries_any_failure:
  assumes "getKlines symb interval limit startTime endTime s = (i, s0)" and "length es \<le> 3"
  shows "observers (klinesObservables
            (foldl (\<lambda>s e. klines_response i (Inl e) s) (klines_subscribe i s0) es) ! i) = [None] \<and>
         network (foldl (\<lambda>s e. klines_response i (Inl e) s) (klines_subscribe i s0) es) =
           network s @ replicate (Suc (length es)) (source (klinesObservables s0 ! i)) \<and>
         observers (klinesObservables
            (klines_response i (Inr data)
               (foldl (\<lambda>s e. klines_response i (Inl e) s) (klines_subscribe i s0) es)) ! i) =
           [Some (Inr (map klineOfItem data))] \<and>
         (length es = 3 \<longrightarrow>
            observers (klinesObservables
              (klines_response i (Inl e)
                 (foldl (\<lambda>s e. klines_response i (Inl e) s) (klines_subscribe i s0) es)) ! i) =
              [Some (Inl e)] \<and>
            network (klines_response i (Inl e)
                 (foldl (\<lambda>s e. klines_response i (Inl e) s) (klines_subscribe i s0) es)) =
              network (foldl (\<lambda>s e. klines_response i (Inl e) s) (klines_subscribe i s0) es))"
proof -
  let ?s2 = "foldl (\<lambda>s e. klines_response i (Inl e) s) (klines_subscribe i s0) es"
  have i: "i = length (klinesObservables s)"
    by (rule getKlines_index [OF assms(1)])
  note s2 = getKlines_after_errors [OF assms]
  have a: "i < length (klinesObservables ?s2)" unfolding s2 by (simp add: i)
  have b: "inFlight (klinesObservables ?s2 ! i)" unfolding s2 by (simp add: i)
  have c: "soFar (klinesObservables ?s2 ! i) = length es" unfolding s2 by (simp add: i)
  have o: "observers (klinesObservables ?s2 ! i) = [None]" unfolding s2 by (simp add: i)
  have n: "network ?s2 = network s @ replicate (Suc (length es)) (source (klinesObservables s0 ! i))"
    unfolding s2 by simp
  have ok: "observers (klinesObservables (klines_response i (Inr data) ?s2) ! i) =
      [Some (Inr (map klineOfItem data))]"
    using a by (simp add: klines_response_success [OF a b] o notify_def)
  have ex: "observers (klinesObservables (klines_response i (Inl e) ?s2) ! i) = [Some (Inl e)] \<and>
      network (klines_response i (Inl e) ?s2) = network ?s2" if "length es = 3"
  proof -
    have c3: "soFar (klinesObservables ?s2 ! i) = 3" using c that by simp
    show ?thesis
      using a by (simp add: klines_response_exhausted [OF a b c3] o notify_def)
  qed
  from o n ok ex show ?thesis by blast
qed

theorem getKlines_retries_any_failure_witness:
  "observers (klinesObservables
     (klines_response 0 (Inl (HttpErrorResponse 503))
        (foldl (\<lambda>s e. klines_response 0 (Inl e) s)
           (klines_subscribe 0 (snd (getKlines ''btcusdt'' ''1h'' None None None constructor)))
           [HttpErrorResponse 500, HttpErrorResponse 429, HttpErrorResponse 0])) ! 0) =
     [Some (Inl (HttpErrorResponse 503))] \<and>
   length (network
     (klines_response 0 (Inl (HttpErrorResponse 503))
        (foldl (\<lambda>s e. klines_response 0 (Inl e) s)
           (klines_subscribe 0 (snd (getKlines ''btcusdt'' ''1h'' None None None constructor)))
           [HttpErrorResponse 500, HttpErrorResponse 429, HttpErrorResponse 0]))) =
     length (network constructor) + 4"
proof -
  have g: "getKlines ''btcusdt'' ''1h'' None None None constructor =
      (0, snd (getKlines ''btcusdt'' ''1h'' None None None constructor))"
    by code_simp
  have l: "length [HttpErrorResponse 500, HttpErrorResponse 429, HttpErrorResponse 0] \<le> 3"
    by simp
  show ?thesis
    using getKlines_retries_any_failure [OF g l, of "[]" "HttpErrorResponse 503"]
    by simp
qed

text \<open>
  C3 fails as stated: a 4xx failure is retried like any other. After a 400 on the
  first attempt the subscriber has been told nothing and the request has been issued a
  second time; the body that answers it is then delivered.
\<close>

theorem getKlines_retries_client_error:
  "observers (klinesObservables
     (klines_response 0 (Inl (HttpErrorResponse 400))
        (klines_subscribe 0 (snd (getKlines ''btcusdt'' ''1h'' None None None constructor)))) ! 0) =
     [None] \<and>
   network
     (klines_response 0 (Inl (HttpErrorResponse 400))
        (klines_subscribe 0 (snd (getKlines ''btcusdt'' ''1h'' None None None constructor)))) =
     network constructor @
       [\<lparr>url = ''https://api.binance.com/api/v3/klines'',
         query = [(''symbol'', JStr ''BTCUSDT''), (''interval'', JStr ''1h''), (''limit'', JNum 500)]\<rparr>,
        \<lparr>url = ''https://api.binance.com/api/v3/klines'',
         query = [(''symbol'', JStr ''BTCUSDT''), (''interval'', JStr ''1h''), (''limit'', JNum 500)]\<rparr>] \<and>
   observers (klinesObservables
     (klines_response 0 (Inr [])
        (klines_response 0 (Inl (HttpErrorResponse 400))
           (klines_subscribe 0 (snd (getKlines ''btcusdt'' ''1h'' None None None constructor))))) ! 0) =
     [Some (Inr [])]"
  by code_simp

lemma klinesObservables_response_other:
  "j \<noteq> i \<Longrightarrow> klinesObservables (klines_response i r s) ! j = klinesObservables s ! j"
  by (simp add: klines_response_def split: prod.splits)

text \<open>
  C6, as the code has it. Nothing is keyed by the arguments: every call of \<^verbatim>\<open>getKlines\<close>
  returns an observable of its own, and the first subscription to it issues its own
  request, whatever else is in flight. The answer to that request is given to the
  subscribers of that observable only: the observables of earlier calls are left as
  they are. What \<^verbatim>\<open>shareReplay(1)\<close> shares is one observable among its own subscribers: a
  second subscriber arriving while the request is in flight issues no request and is
  given the same candles as the first.
\<close>

theorem getKlines_shares_only_per_observable:
  assumes "getKlines symb interval limit startTime endTime s = (i, s0)"
  shows "network (klines_subscribe i s0) = network s @ [source (klinesObservables s0 ! i)] \<and>
         (\<forall>j < length (klinesObservables s).
            klinesObservables (klines_response i r (klines_subscribe i s0)) ! j =
              klinesObservables s ! j) \<and>
         network (klines_subscribe i (klines_subscribe i s0)) = network (klines_subscribe i s0) \<and>
         observers (klinesObservables
            (klines_response i (Inr data) (klines_subscribe i (klines_subscribe i s0))) ! i) =
           [Some (Inr (map klineOfItem data)), Some (Inr (map klineOfItem data))]"
proof -
  let ?s1 = "klines_subscribe i s0"
  have i: "i = length (klinesObservables s)"
    by (rule getKlines_index [OF assms])
  note s1 = getKlines_subscribe [OF assms]
  have n1: "network ?s1 = network s @ [source (klinesObservables s0 ! i)]"
    unfolding s1 by simp
  have other: "klinesObservables (klines_response i r ?s1) ! j = klinesObservables s ! j"
    if "j < length (klinesObservables s)" for j
  proof -
    have "j \<noteq> i" using that i by simp
    then have "klinesObservables (klines_response i r ?s1) ! j = klinesObservables ?s1 ! j"
      by (rule klinesObservables_response_other)
    also have "\<dots> = klinesObservables s ! j"
      unfolding s1 using that by (simp add: nth_append)
    finally show ?thesis .
  qed
  have a: "i < length (klinesObservables ?s1)" unfolding s1 by (simp add: i)
  have b: "inFlight (klinesObservables ?s1 ! i)" unfolding s1 by (simp add: i)
  have c: "replay (klinesObservables ?s1 ! i) = None" unfolding s1 by (simp add: i)
  have o: "observers (klinesObservables ?s1 ! i) = [None]" unfolding s1 by (simp add: i)
  note s2 = klines_subscribe_inFlight [OF a b c]
  have n2: "network (klines_subscribe i ?s1) = network ?s1"
    by (subst s2) simp
  have a2: "i < length (klinesObservables (klines_subscribe i ?s1))"
    by (subst s2) (simp add: a)
  have b2: "inFlight (klinesObservables (klines_subscribe i ?s1) ! i)"
    by (subst s2) (simp add: a b)
  have o2: "observers (klinesObservables (klines_subscribe i ?s1) ! i) = [None, None]"
    by (subst s2) (simp add: a o)
  have both: "observers (klinesObservables
            (klines_response i (Inr data) (klines_subscribe i ?s1)) ! i) =
           [Some (Inr (map klineOfItem data)), Some (Inr (map klineOfItem data))]"
    using a2 by (simp add: klines_response_success [OF a2 b2] o2 notify_def)
  from n1 other n2 both show ?thesis by blast
qed

theorem getKlines_shares_only_per_observable_witness:
  "network
     (klines_subscribe 1
        (snd (getKlines ''btcusdt'' ''1h'' (Some 100) None None
           (klines_subscribe 0
              (snd (getKlines ''btcusdt'' ''1h'' (Some 100) None None constructor)))))) =
   network
     (klines_subscribe 0 (snd (getKlines ''btcusdt'' ''1h'' (Some 100) None None constructor))) @
     [\<lparr>url = ''https://api.binance.com/api/v3/klines'',
       query = [(''symbol'', JStr ''BTCUSDT''), (''interval'', JStr ''1h''), (''limit'', JNum 100)]\<rparr>]"
proof -
  let ?s = "klines_subscribe 0 (snd (getKlines ''btcusdt'' ''1h'' (Some 100) None None constructor))"
  have g: "getKlines ''btcusdt'' ''1h'' (Some 100) None None ?s =
      (1, snd (getKlines ''btcusdt'' ''1h'' (Some 100) None None ?s))"
    by code_simp
  have q: "source (klinesObservables (snd (getKlines ''btcusdt'' ''1h'' (Some 100) None None ?s)) ! 1) =
      \<lparr>url = ''https://api.binance.com/api/v3/klines'',
       query = [(''symbol'', JStr ''BTCUSDT''), (''interval'', JStr ''1h''), (''limit'', JNum 100)]\<rparr>"
    by code_simp
  show ?thesis
    using getKlines_shares_only_per_observable [OF g, of "Inr []" "[]"]
    by (simp only: q)
qed

text \<open>
  C6 fails as stated. Two calls of \<^verbatim>\<open>getKlines\<close> with the same arguments, the second made
  and subscribed while the request of the first is in flight, issue the request twice;
  each is then given the answer to its own request, so that the two can observe
  different candle sequences.
\<close>

theorem getKlines_identical_calls_issue_two_requests:
  "inFlight (klinesObservables
     (klines_subscribe 0 (snd (getKlines ''btcusdt'' ''1h'' (Some 100) None None constructor))) ! 0) \<and>
   network
     (klines_subscribe 1
        (snd (getKlines ''btcusdt'' ''1h'' (Some 100) None None
           (klines_subscribe 0
              (snd (getKlines ''btcusdt'' ''1h'' (Some 100) None None constructor)))))) =
     network constructor @
       [\<lparr>url = ''https://api.binance.com/api/v3/klines'',
         query = [(''symbol'', JStr ''BTCUSDT''), (''interval'', JStr ''1h''), (''limit'', JNum 100)]\<rparr>,
        \<lparr>url = ''https://api.binance.com/api/v3/klines'',
         query = [(''symbol'', JStr ''BTCUSDT''), (''interval'', JStr ''1h''), (''limit'', JNum 100)]\<rparr>] \<and>
   map observers (klinesObservables
     (klines_response 1 (Inr [])
        (klines_response 0 (Inr [[JNum 1700000000000]])
           (klines_subscribe 1
              (snd (getKlines ''btcusdt'' ''1h'' (Some 100) None None
                 (klines_subscribe 0
                    (snd (getKlines ''btcusdt'' ''1h'' (Some 100) None None constructor))))))))) =
     [[Some (Inr [klineOfItem [JNum 1700000000000]])], [Some (Inr [])]]"
  by code_simp

section \<open>Delays\<close>

text \<open>
  C4, as the code has it. The delay function of the websocket pipeline is
  \<open>min n 5 * 1000\<close> milliseconds for every retry number \<open>n\<close>: it never decreases and never
  exceeds 5000, and the pipeline retries without limit, before retry \<open>n + 1\<close> after that
  delay. It governs that pipeline only. The REST pipelines resubscribe at once, up to
  three times, and the reconnection after a close waits a fixed 3000 milliseconds.
\<close>

theorem websocket_retry_delay_bounded:
  "(case retry_delay ws_retry of
      None \<Rightarrow> False
    | Some d \<Rightarrow> d n = min n 5 * 1000 \<and> d n \<le> 5000 \<and> (n \<le> m \<longrightarrow> d n \<le> d m)) \<and>
   retry ws_retry n = Resubscribe (min (Suc n) 5 * 1000) \<and>
   retry http_retry n = (if n < 3 then Resubscribe 0 else Propagate) \<and>
   timers (closeObserver_next s) = timers s @ [3000]"
  by (auto simp: ws_retry_def retry_def http_retry_def closeObserver_next_def reconnect_delay_def)

theorem websocket_retry_delay_bounded_witness:
  "(3::nat) \<le> 7 \<and>
   retry ws_retry 2 = Resubscribe 3000 \<and> retry ws_retry 6 = Resubscribe 5000 \<and>
   retry http_retry 2 = Resubscribe 0 \<and> retry http_retry 3 = Propagate"
  using websocket_retry_delay_bounded [of 2 7 constructor]
    websocket_retry_delay_bounded [of 6 7 constructor]
    websocket_retry_delay_bounded [of 3 7 constructor]
  by simp

text \<open>
  C4 fails as stated: the three delays are three policies. Before their first retry
  the websocket pipeline waits 1000 milliseconds and the REST pipeline none, and a
  closed socket is reconnected after 3000 milliseconds.
\<close>

theorem retry_delays_differ:
  "retry ws_retry 0 = Resubscribe 1000 \<and>
   retry http_retry 0 = Resubscribe 0 \<and>
   timers (closeObserver_next constructor) = [3000]"
  by code_simp

section \<open>Reconnection\<close>

lemma timers_send [simp]: "timers (sendSubscriptionMessage clk m xs s) = timers s"
  by (simp add: sendSubscriptionMessage_def Let_def)

lemma timers_subscribe [simp]: "timers (subscribeToTradeStream clk syms s) = timers s"
  by (simp add: subscribeToTradeStream_def Let_def)

lemma subscribe_calls_disconnected:
  assumes "\<not> connected s"
  shows "wire (foldl (\<lambda>s syms. subscribeToTradeStream clk syms s) s calls) = wire s \<and>
         clockReads (foldl (\<lambda>s syms. subscribeToTradeStream clk syms s) s calls) = clockReads s \<and>
         websocketSubject (foldl (\<lambda>s syms. subscribeToTradeStream clk syms s) s calls) =
           websocketSubject s \<and>
         timers (foldl (\<lambda>s syms. subscribeToTradeStream clk syms s) s calls) = timers s \<and>
         set (subscribedSymbols (foldl (\<lambda>s syms. subscribeToTradeStream clk syms s) s calls)) =
           (if calls = [] then set (subscribedSymbols s) else toLowerCase ` set (last calls))"
proof (induction calls rule: rev_induct)
  case Nil
  show ?case by simp
next
  case (snoc syms calls)
  let ?s = "foldl (\<lambda>s syms. subscribeToTradeStream clk syms s) s calls"
  have "\<not> connected ?s"
    using assms snoc.IH by (simp add: connected_def)
  then show ?case
    using snoc.IH
    by (simp add: wire_subscribe_not_connected clockReads_subscribe_not_connected
        set_subscribedSymbols_subscribe)
qed

lemma reopen_after_close:
  assumes "websocketSubject s = None" and "timers s \<noteq> []"
  shows "subscribedSymbols (openObserver_next clk (timer_fires s)) = subscribedSymbols s \<and>
         wire (openObserver_next clk (timer_fires s)) =
           wire s @
             (if subscribedSymbols s = [] then []
              else [\<lparr>msg_method = SUBSCRIBE,
                     msg_params = map (\<lambda>x. toLowerCase x @ ''@trade'') (subscribedSymbols s),
                     msg_id = clk (clockReads s)\<rparr>])"
  using assms
  by (cases "timers s")
     (simp_all add: timer_fires_def connect_def connected_def openObserver_next_def wire_send)

text \<open>
  C5, as the code has it. The service keeps one set, \<^verbatim>\<open>_subscribedSymbols\<close>, and a closed
  socket does not clear it. Calls of \<^verbatim>\<open>subscribeToTradeStream\<close> made while the socket is
  down hand nothing to the websocket and leave the set at the lower-cased symbols of
  the last call. When the reconnection timer has fired and the socket opens, the set is
  still what it was; if it is not empty exactly one \<^verbatim>\<open>SUBSCRIBE\<close> for all of it is sent,
  and if it is empty nothing is sent.
\<close>

theorem reopen_resubscribes_whole_set:
  "subscribedSymbols (closeObserver_next s) = subscribedSymbols s \<and>
   wire (foldl (\<lambda>s syms. subscribeToTradeStream clk syms s) (closeObserver_next s) calls) =
     wire s \<and>
   set (subscribedSymbols
          (foldl (\<lambda>s syms. subscribeToTradeStream clk syms s) (closeObserver_next s) calls)) =
     (if calls = [] then set (subscribedSymbols s) else toLowerCase ` set (last calls)) \<and>
   subscribedSymbols
     (openObserver_next clk (timer_fires
        (foldl (\<lambda>s syms. subscribeToTradeStream clk syms s) (closeObserver_next s) calls))) =
     subscribedSymbols
       (foldl (\<lambda>s syms. subscribeToTradeStream clk syms s) (closeObserver_next s) calls) \<and>
   wire
     (openObserver_next clk (timer_fires
        (foldl (\<lambda>s syms. subscribeToTradeStream clk syms s) (closeObserver_next s) calls))) =
     wire s @
       (if subscribedSymbols
             (foldl (\<lambda>s syms. subscribeToTradeStream clk syms s) (closeObserver_next s) calls) = []
        then []
        else [\<lparr>msg_method = SUBSCRIBE,
               msg_params = map (\<lambda>x. toLowerCase x @ ''@trade'')
                 (subscribedSymbols
                    (foldl (\<lambda>s syms. subscribeToTradeStream clk syms s) (closeObserver_next s) calls)),
               msg_id = clk (clockReads s)\<rparr>])"
proof -
  let ?c = "closeObserver_next s"
  let ?s1 = "foldl (\<lambda>s syms. subscribeToTradeStream clk syms s) ?c calls"
  have c: "\<not> connected ?c" by (simp add: closeObserver_next_def connected_def)
  note d = subscribe_calls_disconnected [OF c, of clk calls]
  have w: "websocketSubject ?s1 = None" using d by (simp add: closeObserver_next_def)
  have t: "timers ?s1 \<noteq> []" using d by (simp add: closeObserver_next_def)
  note r = reopen_after_close [OF w t, of clk]
  have k: "subscribedSymbols ?c = subscribedSymbols s" "wire ?c = wire s"
    "clockReads ?c = clockReads s"
    by (simp_all add: closeObserver_next_def)
  have 1: "wire ?s1 = wire s" using d k by simp
  have 2: "set (subscribedSymbols ?s1) =
      (if calls = [] then set (subscribedSymbols s) else toLowerCase ` set (last calls))"
    using d k by simp
  have 3: "clockReads ?s1 = clockReads s" using d k by simp
  show ?thesis
    using r by (simp only: k 1 2 3 simp_thms)
qed

theorem reopen_resubscribes_whole_set_witness:
  "wire
     (openObserver_next (\<lambda>k. 1700000000000 + int k) (timer_fires
        (foldl (\<lambda>s syms. subscribeToTradeStream (\<lambda>k. 1700000000000 + int k) syms s)
           (closeObserver_next
              (subscribeToTradeStream (\<lambda>k. 1700000000000 + int k) [''BTCUSDT''] constructor))
           [[''ETHUSDT''], [''BNBUSDT'', ''ethusdt'']]))) =
     [\<lparr>msg_method = SUBSCRIBE, msg_params = [''btcusdt@trade''], msg_id = 1700000000000\<rparr>,
      \<lparr>msg_method = SUBSCRIBE, msg_params = [''ethusdt@trade'', ''bnbusdt@trade''],
        msg_id = 1700000000001\<rparr>]"
proof -
  let ?clk = "\<lambda>k. 1700000000000 + int k"
  let ?s = "subscribeToTradeStream ?clk [''BTCUSDT''] constructor"
  let ?calls = "[[''ETHUSDT''], [''BNBUSDT'', ''ethusdt'']]"
  have a: "subscribedSymbols (foldl (\<lambda>s syms. subscribeToTradeStream ?clk syms s)
             (closeObserver_next ?s) ?calls) = [''ethusdt'', ''bnbusdt'']"
    by code_simp
  have b: "wire ?s =
      [\<lparr>msg_method = SUBSCRIBE, msg_params = [''btcusdt@trade''], msg_id = 1700000000000\<rparr>]"
    by code_simp
  have c: "clockReads ?s = 1" by code_simp
  have d: "map (\<lambda>x. toLowerCase x @ ''@trade'') [''ethusdt'', ''bnbusdt''] =
      [''ethusdt@trade'', ''bnbusdt@trade'']"
    by code_simp
  have "wire (openObserver_next ?clk (timer_fires
          (foldl (\<lambda>s syms. subscribeToTradeStream ?clk syms s) (closeObserver_next ?s) ?calls))) =
        wire ?s @
          [\<lparr>msg_method = SUBSCRIBE,
            msg_params = map (\<lambda>x. toLowerCase x @ ''@trade'') [''ethusdt'', ''bnbusdt''],
            msg_id = ?clk (clockReads ?s)\<rparr>]"
    using reopen_resubscribes_whole_set [of ?s ?clk ?calls]
    by (simp only: a) simp
  then show ?thesis
    by (simp only: b c d) simp
qed

text \<open>
  C5 fails as stated on two counts. With an empty set no \<^verbatim>\<open>SUBSCRIBE\<close> at all is sent
  when the socket opens again, and a closed socket leaves the set of the session
  before as it was.
\<close>

theorem reopen_with_empty_set_sends_nothing:
  "wire (openObserver_next int (timer_fires (closeObserver_next constructor))) = [] \<and>
   subscribedSymbols
     (closeObserver_next (subscribeToTradeStream int [''BTCUSDT''] constructor)) =
     [''btcusdt'']"
  by code_simp

end
